theory Spec2Isabelle
  imports Complex_Main "HOL-Library.Sublist" "HOL-Library.Multiset"
begin

section \<open>Strings, arrays and numbers of the host language\<close>

text \<open>
  The page is a TypeScript module. Its strings are modelled as \<^typ>\<open>string\<close>, one
  character per code unit; the model covers ASCII text, where lower-casing touches the
  letters A to Z only and the white space removed by trimming is tab, line feed, vertical
  tab, form feed, carriage return and space.
\<close>

definition js_toLowerChar :: "char \<Rightarrow> char" where
  "js_toLowerChar c =
     (let n = (of_char c :: nat) in if 65 \<le> n \<and> n \<le> 90 then char_of (n + 32) else c)"

definition js_toLowerCase :: "string \<Rightarrow> string" where
  "js_toLowerCase s = map js_toLowerChar s"

text \<open>
  \<^verbatim>\<open>s.split(sep)\<close> for a one-character separator: the pieces between the separators,
  empty pieces included, so that the empty string splits into one empty piece.
\<close>

fun js_split :: "char \<Rightarrow> string \<Rightarrow> string list" where
  "js_split sep [] = [[]]"
| "js_split sep (c # cs) =
     (if c = sep then [] # js_split sep cs
      else (case js_split sep cs of [] \<Rightarrow> [[c]] | w # ws \<Rightarrow> (c # w) # ws))"

text \<open>\<^verbatim>\<open>s.includes(trm)\<close>: \<open>trm\<close> occurs in \<open>s\<close> as a contiguous run.\<close>

fun js_includes :: "string \<Rightarrow> string \<Rightarrow> bool" where
  "js_includes [] trm = (trm = [])"
| "js_includes (c # cs) trm = (prefix trm (c # cs) \<or> js_includes cs trm)"

definition js_isSpace :: "char \<Rightarrow> bool" where
  "js_isSpace c = ((of_char c :: nat) \<in> {9, 10, 11, 12, 13, 32})"

definition js_trim :: "string \<Rightarrow> string" where
  "js_trim s = rev (dropWhile js_isSpace (rev (dropWhile js_isSpace s)))"

text \<open>\<^verbatim>\<open>xs.join(sep)\<close> on an array of strings.\<close>

fun js_join :: "string \<Rightarrow> string list \<Rightarrow> string" where
  "js_join sep [] = []"
| "js_join sep [x] = x"
| "js_join sep (x # y # ys) = x @ sep @ js_join sep (y # ys)"

text \<open>
  \<^verbatim>\<open>xs[i]\<close> is \<^verbatim>\<open>undefined\<close> outside the array (here \<open>None\<close>), and
  \<^verbatim>\<open>xs.slice(-n)\<close> keeps the last \<open>n\<close> elements, or all of them when there are fewer.
\<close>

definition js_at :: "'a list \<Rightarrow> int \<Rightarrow> 'a option" where
  "js_at xs i = (if 0 \<le> i \<and> i < int (length xs) then Some (xs ! nat i) else None)"

definition js_slice_last :: "nat \<Rightarrow> 'a list \<Rightarrow> 'a list" where
  "js_slice_last n xs = drop (length xs - n) xs"

text \<open>Decimal rendering of an integer, as a template literal renders a whole number.\<close>

fun showDigits :: "nat \<Rightarrow> string" where
  "showDigits n =
     (if n < 10 then [char_of (48 + n)]
      else showDigits (n div 10) @ [char_of (48 + n mod 10)])"

declare showDigits.simps [simp del]

definition showInt :: "int \<Rightarrow> string" where
  "showInt i = (if i < 0 then ''-'' @ showDigits (nat (- i)) else showDigits (nat i))"

text \<open>
  \<^verbatim>\<open>x.toFixed(2)\<close> on the exact value of a finite number below \<open>10^21\<close> in magnitude: the
  sign is split off, the magnitude is scaled by 100 and rounded to the nearest integer
  (the larger one on a tie), and the digits are padded to three places before the point
  is put in.
\<close>

definition toFixed2 :: "rat \<Rightarrow> string" where
  "toFixed2 x =
     (let s = (if x < 0 then ''-'' else []);
          n = nat \<lfloor>\<bar>x\<bar> * 100 + 1 / 2\<rfloor>;
          m = showDigits n;
          m' = replicate (3 - length m) (CHR ''0'') @ m
      in s @ take (length m' - 2) m' @ ''.'' @ drop (length m' - 2) m')"

section \<open>Data model\<close>

text \<open>
  Issues and recommendations have the same shape in the \<^verbatim>\<open>AnalysisData\<close> interface:
  an id, a title and a description.
\<close>

record Item =
  item_id :: int
  title :: string
  description :: string

record Metrics =
  totalDuration :: string
  promptEvalCount :: int
  evalCount :: int

record AnalysisData =
  timestamp :: string
  model :: string
  keyIssues :: "Item list"
  recommendations :: "Item list"
  metrics :: Metrics

text \<open>
  A row of the interaction log, with the columns the prompt lists. The fields the page
  reads (\<^verbatim>\<open>inbound\<close>, \<^verbatim>\<open>created_at\<close>, \<^verbatim>\<open>text\<close>) hold text; the direction flag of
  an inbound row is the text \<^verbatim>\<open>True\<close>, which is what the page compares it with.
\<close>

record Tweet =
  tweet_id :: string
  author_id :: string
  inbound :: string
  created_at :: string
  tweet_text :: string
  response_tweet_id :: string

record Period =
  average_score :: rat
  positive :: int
  negative :: int
  neutral :: int

text \<open>
  The sentiment document. \<^verbatim>\<open>monthly_sentiment\<close> is an object keyed by period; it is kept
  as the list of its entries in the order \<^verbatim>\<open>Object.entries\<close> gives them, and is \<open>None\<close>
  when the document has no such field.
\<close>

type_synonym entry = "string \<times> Period"

record SentimentJson =
  monthly_sentiment :: "entry list option"

datatype role = User | Assistant

record Message =
  role :: role
  content :: string

datatype js_error = TypeError | FetchError | StatusError | SyntaxError

section \<open>Relevance selection\<close>

text \<open>The query's search terms: lower-cased, split at every single space.\<close>

definition searchTerms :: "string \<Rightarrow> string list" where
  "searchTerms query = js_split (CHR '' '') (js_toLowerCase query)"

definition findRelevantTweets :: "Tweet list \<Rightarrow> string \<Rightarrow> nat \<Rightarrow> Tweet list" where
  "findRelevantTweets tweets query limit =
     take limit
       (filter
          (\<lambda>tweet. let tweetText = js_toLowerCase (tweet_text tweet)
                   in list_ex (\<lambda>trm. js_includes tweetText trm) (searchTerms query))
          tweets)"

text \<open>
  The period keys are ordered by the time value of the date each one parses to. The
  parser is the platform's; it is the parameter \<open>getTime\<close>, for keys that parse as dates.
  The platform's sort is stable, as \<^const>\<open>sort_key\<close> is.
\<close>

record Trends =
  earliest :: "entry option"
  latest :: "entry option"
  trend :: "entry list"

definition analyzeSentimentTrends ::
  "(string \<Rightarrow> int) \<Rightarrow> SentimentJson option \<Rightarrow> js_error + Trends" where
  "analyzeSentimentTrends getTime sentimentData =
     (case sentimentData of
        None \<Rightarrow> Inl TypeError
      | Some doc \<Rightarrow>
          (case monthly_sentiment doc of
             None \<Rightarrow> Inl TypeError
           | Some ms \<Rightarrow>
               (let sortedMonths = sort_key (\<lambda>e. getTime (fst e)) ms
                in Inr \<lparr> earliest = js_at sortedMonths 0,
                         latest = js_at sortedMonths (int (length sortedMonths) - 1),
                         trend = js_slice_last 3 sortedMonths \<rparr>)))"

definition itemMatches :: "string list \<Rightarrow> Item \<Rightarrow> bool" where
  "itemMatches terms x =
     list_ex (\<lambda>trm. js_includes (js_toLowerCase (title x)) trm
                  \<or> js_includes (js_toLowerCase (description x)) trm) terms"

definition findRelevantRecommendations :: "AnalysisData \<Rightarrow> string \<Rightarrow> Item list" where
  "findRelevantRecommendations analysisData query =
     filter (itemMatches (searchTerms query)) (recommendations analysisData)"

definition findRelevantIssues :: "AnalysisData \<Rightarrow> string \<Rightarrow> Item list" where
  "findRelevantIssues analysisData query =
     filter (itemMatches (searchTerms query)) (keyIssues analysisData)"

section \<open>Prompt composition\<close>

text \<open>Template text: the persona preamble and the head of section 1, up to the total count.\<close>

definition ctx_head :: string where
  \<open>ctx_head = ''You are a data analysis assistant working with Amazon customer service data. You have access to these three data sources:\<newline>\<newline>AVAILABLE DATA SOURCES:\<newline>\<newline>1. amazonhelp_tweets.csv - Customer Service Interactions:\<newline>- Total tweets in dataset: ''\<close>

text \<open>Template text: the field list of section 1 and the heading of the example lines.\<close>

definition ctx_fields :: string where
  \<open>ctx_fields = ''\<newline>- Tweet fields: tweet_id, author_id, inbound, created_at, text, response_tweet_id\<newline>- Relevant examples for this query:\<newline>''\<close>

text \<open>Template text: the heading of section 2, up to the time range.\<close>

definition ctx_sentiment :: string where
  \<open>ctx_sentiment = ''\<newline>\<newline>2. amazon_monthly_sentiment.json - Sentiment Analysis:\<newline>- Time range: ''\<close>

text \<open>Template text: the separator between the two ends of the time range.\<close>

definition ctx_to :: string where
  \<open>ctx_to = '' to ''\<close>

text \<open>Template text: the heading of the trend lines.\<close>

definition ctx_trends :: string where
  \<open>ctx_trends = ''\<newline>- Recent trends:\<newline>''\<close>

text \<open>Template text: the heading of section 3, up to the analysis timestamp.\<close>

definition ctx_analysis :: string where
  \<open>ctx_analysis = ''\<newline>\<newline>3. amazonhelp_analysis.json - Service Analysis:\<newline>- Analysis timestamp: ''\<close>

text \<open>Template text: the heading of the key issues.\<close>

definition ctx_issues :: string where
  \<open>ctx_issues = ''\<newline>- Relevant Key Issues:\<newline>''\<close>

text \<open>Template text: the heading of the recommendations.\<close>

definition ctx_recommendations :: string where
  \<open>ctx_recommendations = ''\<newline>- Relevant Recommendations:\<newline>''\<close>

text \<open>Template text: the fixed instruction block, up to the user question.\<close>

definition ctx_instructions :: string where
  \<open>ctx_instructions = ''\<newline>\<newline>INSTRUCTIONS:\<newline>1. Only use data from these three sources\<newline>2. If information isn't in these sources, state that explicitly\<newline>3. Keep responses focused on the actual data\<newline>4. Please summarize the key information without extra details\<newline>5. Give me the most relevant fact, no additional context\<newline>\<newline>User Question: ''\<close>

text \<open>Template text: the closing directive.\<close>

definition ctx_closing :: string where
  \<open>ctx_closing = ''\<newline>\<newline>Based on ONLY the above data sources, provide an evidence-based response:''\<close>

text \<open>The lines interpolated into the template.\<close>

definition tweetLine :: "Tweet \<Rightarrow> string" where
  \<open>tweetLine t =
     ''  * ['' @ created_at t @ ''] ''
       @ (if inbound t = ''True'' then ''Customer'' else ''Amazon'')
       @ '': "'' @ tweet_text t @ ''"''\<close>

definition trendLine :: "entry \<Rightarrow> string" where
  "trendLine e =
     (case e of (month, d) \<Rightarrow>
        ''  * '' @ month @ '': Score='' @ toFixed2 (average_score d)
          @ '' ('' @ showInt (positive d) @ '' positive, '' @ showInt (negative d)
          @ '' negative, '' @ showInt (neutral d) @ '' neutral)'')"

definition itemLine :: "Item \<Rightarrow> string" where
  "itemLine i = ''  * '' @ title i @ '': '' @ description i"

text \<open>
  The template literal of \<^verbatim>\<open>processDataForChat\<close>, as a function of the values it
  interpolates: the query, the number of rows of the log, the selected rows, the keys of
  the earliest and latest periods, the trend entries, the report's timestamp and the
  selected issues and recommendations.
\<close>

definition contextText ::
  "string \<Rightarrow> nat \<Rightarrow> Tweet list \<Rightarrow> string \<Rightarrow> string \<Rightarrow> entry list \<Rightarrow> string
     \<Rightarrow> Item list \<Rightarrow> Item list \<Rightarrow> string" where
  "contextText query n relevantTweets earliestKey latestKey trendEntries stamp
       relevantIssues relevantRecommendations =
     ctx_head @ showDigits n
       @ ctx_fields @ js_join ''\<newline>'' (map tweetLine relevantTweets)
       @ ctx_sentiment @ earliestKey @ ctx_to @ latestKey
       @ ctx_trends @ js_join ''\<newline>'' (map trendLine trendEntries)
       @ ctx_analysis @ stamp
       @ ctx_issues @ js_join ''\<newline>'' (map itemLine relevantIssues)
       @ ctx_recommendations @ js_join ''\<newline>'' (map itemLine relevantRecommendations)
       @ ctx_instructions @ query
       @ ctx_closing"

text \<open>
  The part of \<^verbatim>\<open>processDataForChat\<close> that runs before the request, in two steps.
  First the four selections; a missing sentiment document or period map raises a type
  error there.
\<close>

record Selection =
  relevantTweets :: "Tweet list"
  sentimentTrends :: Trends
  relevantRecommendations :: "Item list"
  relevantIssues :: "Item list"

definition selectEvidence ::
  "(string \<Rightarrow> int) \<Rightarrow> string \<Rightarrow> AnalysisData \<Rightarrow> SentimentJson option \<Rightarrow> Tweet list
     \<Rightarrow> js_error + Selection" where
  "selectEvidence getTime query analysisData sentimentData tweets =
     (let found = findRelevantTweets tweets query 5
      in case analyzeSentimentTrends getTime sentimentData of
           Inl err \<Rightarrow> Inl err
         | Inr summary \<Rightarrow>
             Inr \<lparr> relevantTweets = found,
                   sentimentTrends = summary,
                   relevantRecommendations = findRelevantRecommendations analysisData query,
                   relevantIssues = findRelevantIssues analysisData query \<rparr>)"

text \<open>
  Then the template, filled from the query, the selection, the number of rows of the log
  and the report's timestamp. Reading the key of an \<^verbatim>\<open>undefined\<close> earliest or latest
  entry raises a type error.
\<close>

definition composeContext :: "string \<Rightarrow> nat \<Rightarrow> string \<Rightarrow> Selection \<Rightarrow> js_error + string" where
  "composeContext query n stamp sel =
     (case earliest (sentimentTrends sel) of
        None \<Rightarrow> Inl TypeError
      | Some e \<Rightarrow>
          (case latest (sentimentTrends sel) of
             None \<Rightarrow> Inl TypeError
           | Some l \<Rightarrow>
               Inr (contextText query n (relevantTweets sel) (fst e) (fst l)
                      (trend (sentimentTrends sel)) stamp
                      (relevantIssues sel) (relevantRecommendations sel))))"

definition buildContext ::
  "(string \<Rightarrow> int) \<Rightarrow> string \<Rightarrow> AnalysisData \<Rightarrow> SentimentJson option \<Rightarrow> Tweet list
     \<Rightarrow> js_error + string" where
  "buildContext getTime query analysisData sentimentData tweets =
     (case selectEvidence getTime query analysisData sentimentData tweets of
        Inl err \<Rightarrow> Inl err
      | Inr sel \<Rightarrow> composeContext query (length tweets) (timestamp analysisData) sel)"

section \<open>Generation request\<close>

text \<open>
  What a \<^verbatim>\<open>fetch\<close> comes to: the promise is rejected (no response at all), or it
  resolves to a response with its \<^verbatim>\<open>ok\<close> flag and its body; the body is \<open>None\<close> when
  decoding it raises.
\<close>

record 'a Response =
  ok :: bool
  body :: "'a option"

datatype 'a fetched = Rejected | Resolved "'a Response"

record GenerateJson =
  response :: string

definition fallbackMessage :: string where
  "fallbackMessage = ''Sorry, I encountered an error processing your request. Please try again.''"

text \<open>The body of the \<^verbatim>\<open>try\<close> block: every failure is an exception.\<close>

definition requestReply :: "GenerateJson fetched \<Rightarrow> js_error + string" where
  "requestReply outcome =
     (case outcome of
        Rejected \<Rightarrow> Inl FetchError
      | Resolved r \<Rightarrow>
          (if \<not> ok r then Inl StatusError
           else (case body r of None \<Rightarrow> Inl SyntaxError | Some d \<Rightarrow> Inr (response d))))"

text \<open>The \<^verbatim>\<open>try\<close> with its \<^verbatim>\<open>catch\<close>: an exception becomes the fallback text.\<close>

definition awaitReply :: "GenerateJson fetched \<Rightarrow> js_error + string" where
  "awaitReply outcome =
     (case requestReply outcome of Inl err \<Rightarrow> Inr fallbackMessage | Inr reply \<Rightarrow> Inr reply)"

text \<open>
  The whole of \<^verbatim>\<open>processDataForChat\<close>, with the backend as a function from the prompt
  it is sent to what the request comes to.
\<close>

definition processDataForChat ::
  "(string \<Rightarrow> int) \<Rightarrow> (string \<Rightarrow> GenerateJson fetched) \<Rightarrow> string \<Rightarrow> AnalysisData
     \<Rightarrow> SentimentJson option \<Rightarrow> Tweet list \<Rightarrow> js_error + string" where
  "processDataForChat getTime backend query analysisData sentimentData tweets =
     (case buildContext getTime query analysisData sentimentData tweets of
        Inl err \<Rightarrow> Inl err
      | Inr context \<Rightarrow> awaitReply (backend context))"

section \<open>The dashboard component\<close>

record ChartPoint =
  date :: string
  sentiment :: rat
  chart_positive :: int
  chart_negative :: int
  chart_neutral :: int

text \<open>
  The component's state variables, and with them the prompts of the generation requests
  that were sent and have not settled yet.
\<close>

record Dashboard =
  analysisData :: "AnalysisData option"
  loading :: bool
  messages :: "Message list"
  input :: string
  chatLoading :: bool
  chartData :: "ChartPoint list"
  tweets :: "Tweet list"
  sentimentData :: "SentimentJson option"
  inFlight :: "string list"

definition initialState :: Dashboard where
  "initialState =
     \<lparr> analysisData = None, loading = True, messages = [], input = [], chatLoading = False,
       chartData = [], tweets = [], sentimentData = None, inFlight = [] \<rparr>"

subsection \<open>Loading the three datasets\<close>

record AnalysisJson =
  analysisData_field :: "AnalysisData option"

text \<open>
  The delimited-text parser is a library: it is a parameter of the loader. It returns the
  rows it read and the errors it met; the loader reads the rows only.
\<close>

record PapaResult =
  data :: "Tweet list"
  errors :: "string list"

record LoadEnv =
  analysisResponse :: "AnalysisJson fetched"
  sentimentResponse :: "SentimentJson fetched"
  tweetsResponse :: "string fetched"
  papaParse :: "string \<Rightarrow> PapaResult"

definition chartPoint :: "entry \<Rightarrow> ChartPoint" where
  "chartPoint e =
     (case e of (k, d) \<Rightarrow>
        \<lparr> date = k, sentiment = average_score d, chart_positive = positive d,
          chart_negative = negative d, chart_neutral = neutral d \<rparr>)"

text \<open>
  The \<^verbatim>\<open>try\<close> block of \<^verbatim>\<open>loadData\<close>: the exception it ends with, if any, and the
  state reached by then. The three fetches are awaited together; the two documents are
  decoded and the log's text is read before any state is set.
\<close>

definition loadAttempt ::
  "(string \<Rightarrow> int) \<Rightarrow> LoadEnv \<Rightarrow> Dashboard \<Rightarrow> js_error option \<times> Dashboard" where
  "loadAttempt getTime env s =
     (case (analysisResponse env, sentimentResponse env, tweetsResponse env) of
        (Resolved ra, Resolved rs, Resolved rt) \<Rightarrow>
          (case body ra of
             None \<Rightarrow> (Some SyntaxError, s)
           | Some analysisJson \<Rightarrow>
               (case body rs of
                  None \<Rightarrow> (Some SyntaxError, s)
                | Some sentimentJson \<Rightarrow>
                    (case body rt of
                       None \<Rightarrow> (Some FetchError, s)
                     | Some tweetsText \<Rightarrow>
                         (let s1 = s\<lparr> analysisData := analysisData_field analysisJson,
                                      sentimentData := Some sentimentJson \<rparr>;
                              parsedTweets = data (papaParse env tweetsText);
                              s2 = s1\<lparr> tweets := parsedTweets \<rparr>
                          in case monthly_sentiment sentimentJson of
                               None \<Rightarrow> (Some TypeError, s2)
                             | Some ms \<Rightarrow>
                                 (None,
                                  s2\<lparr> chartData :=
                                        sort_key (\<lambda>p. getTime (date p)) (map chartPoint ms) \<rparr>)))))
      | _ \<Rightarrow> (Some FetchError, s))"

text \<open>The \<^verbatim>\<open>catch\<close> logs the exception; the \<^verbatim>\<open>finally\<close> ends the loading.\<close>

definition loadData :: "(string \<Rightarrow> int) \<Rightarrow> LoadEnv \<Rightarrow> Dashboard \<Rightarrow> Dashboard" where
  "loadData getTime env s = (snd (loadAttempt getTime env s))\<lparr> loading := False \<rparr>"

subsection \<open>What is rendered\<close>

datatype View = LoadingView | NothingView | DashboardView

definition render :: "Dashboard \<Rightarrow> View" where
  "render s =
     (if loading s then LoadingView
      else if analysisData s = None then NothingView
      else DashboardView)"

subsection \<open>Sending a message\<close>

definition failedReply :: "Dashboard \<Rightarrow> Dashboard" where
  "failedReply s =
     s\<lparr> messages := messages s @ [\<lparr> role = Assistant, content = fallbackMessage \<rparr>],
        chatLoading := False \<rparr>"

text \<open>
  \<^verbatim>\<open>handleSendMessage\<close> up to the point where the request is under way. An exception
  raised while the prompt is built is caught at once: the fallback is appended and no
  request is sent.
\<close>

definition handleSendMessage :: "(string \<Rightarrow> int) \<Rightarrow> Dashboard \<Rightarrow> Dashboard" where
  "handleSendMessage getTime s =
     (if js_trim (input s) = [] then s
      else
        (let newUserMessage = \<lparr> role = User, content = input s \<rparr>;
             s1 = s\<lparr> messages := messages s @ [newUserMessage], input := [],
                     chatLoading := True \<rparr>
         in case analysisData s of
              None \<Rightarrow> failedReply s1
            | Some report \<Rightarrow>
                (case buildContext getTime (input s) report (sentimentData s) (tweets s) of
                   Inl err \<Rightarrow> failedReply s1
                 | Inr context \<Rightarrow> s1\<lparr> inFlight := inFlight s1 @ [context] \<rparr>)))"

text \<open>
  \<^verbatim>\<open>handleSendMessage\<close> from the point where request \<open>i\<close> settles: the reply (or the
  fallback) is appended to the transcript as it is then.
\<close>

definition settle :: "nat \<Rightarrow> GenerateJson fetched \<Rightarrow> Dashboard \<Rightarrow> Dashboard" where
  "settle i outcome s =
     (if i < length (inFlight s) then
        (let s1 = s\<lparr> inFlight := take i (inFlight s) @ drop (Suc i) (inFlight s) \<rparr>
         in case awaitReply outcome of
              Inl err \<Rightarrow> failedReply s1
            | Inr reply \<Rightarrow>
                s1\<lparr> messages := messages s1 @ [\<lparr> role = Assistant, content = reply \<rparr>],
                    chatLoading := False \<rparr>)
      else s)"

text \<open>
  The events of the component. The input box and the send button exist in the dashboard
  view only; the button is disabled while \<^verbatim>\<open>chatLoading\<close> is set, the Enter key is not.
\<close>

datatype Event = Change string | KeyPressEnter | ClickSend | Settle nat "GenerateJson fetched"

fun step :: "(string \<Rightarrow> int) \<Rightarrow> Dashboard \<Rightarrow> Event \<Rightarrow> Dashboard" where
  "step getTime s (Change v) = (if render s = DashboardView then s\<lparr> input := v \<rparr> else s)"
| "step getTime s KeyPressEnter =
     (if render s = DashboardView then handleSendMessage getTime s else s)"
| "step getTime s ClickSend =
     (if render s = DashboardView \<and> \<not> chatLoading s then handleSendMessage getTime s else s)"
| "step getTime s (Settle i outcome) = settle i outcome s"

definition run :: "(string \<Rightarrow> int) \<Rightarrow> Dashboard \<Rightarrow> Event list \<Rightarrow> Dashboard" where
  "run getTime s evs = foldl (step getTime) s evs"

section \<open>The spec's reading of a query's tokens\<close>

text \<open>
  Follows the spec's words, for comparison with \<open>searchTerms\<close>: the query is tokenized
  by whitespace, that is, cut at every white-space character, and the empty pieces are
  dropped; a row matches when its lower-cased text contains one of these tokens.
\<close>

fun splitWhere :: "(char \<Rightarrow> bool) \<Rightarrow> string \<Rightarrow> string list" where
  "splitWhere p [] = [[]]"
| "splitWhere p (c # cs) =
     (if p c then [] # splitWhere p cs
      else (case splitWhere p cs of [] \<Rightarrow> [[c]] | w # ws \<Rightarrow> (c # w) # ws))"

definition whitespaceTokens :: "string \<Rightarrow> string list" where
  "whitespaceTokens query = filter (\<lambda>w. w \<noteq> []) (splitWhere js_isSpace (js_toLowerCase query))"

definition whitespaceMatches :: "string \<Rightarrow> Tweet \<Rightarrow> bool" where
  "whitespaceMatches query t =
     list_ex (\<lambda>tok. js_includes (js_toLowerCase (tweet_text t)) tok) (whitespaceTokens query)"

section \<open>Example data\<close>

text \<open>
  A small instance of the three datasets, on which the definitions above are evaluated.
  The period keys have the form \<^verbatim>\<open>YYYY-MM\<close>; \<open>monthIndex\<close> counts the months of such a
  key, which orders the keys as the time values of their dates do.
\<close>

definition digitVal :: "char \<Rightarrow> int" where
  "digitVal c = int (of_char c) - 48"

definition monthIndex :: "string \<Rightarrow> int" where
  "monthIndex k =
     (case k of
        [a, b, c, d, m, e, f] \<Rightarrow>
          (((digitVal a * 10 + digitVal b) * 10 + digitVal c) * 10 + digitVal d) * 12
            + digitVal e * 10 + digitVal f
      | _ \<Rightarrow> 0)"

definition exampleTweets :: "Tweet list" where
  "exampleTweets =
     [\<lparr> tweet_id = ''119237'', author_id = ''105834'', inbound = ''True'',
        created_at = ''Wed Oct 11 06:55:44 +0000 2017'',
        tweet_text = ''Please refund my order'', response_tweet_id = ''119236'' \<rparr>,
      \<lparr> tweet_id = ''119236'', author_id = ''AmazonHelp'', inbound = ''False'',
        created_at = ''Wed Oct 11 07:02:10 +0000 2017'',
        tweet_text = ''We are sorry for the delay'', response_tweet_id = [] \<rparr>]"

definition exampleReport :: AnalysisData where
  "exampleReport =
     \<lparr> timestamp = ''2024-11-02T10:15:00Z'', model = ''llama3.1'',
       keyIssues = [\<lparr> item_id = 1, title = ''Late delivery'',
                      description = ''Parcels arrive after the promised date'' \<rparr>],
       recommendations = [\<lparr> item_id = 1, title = ''Faster refunds'',
                            description = ''Automate the refund of late orders'' \<rparr>],
       metrics = \<lparr> totalDuration = ''12.5s'', promptEvalCount = 812, evalCount = 256 \<rparr> \<rparr>"

definition examplePeriods :: "entry list" where
  "examplePeriods =
     [(''2020-01'', \<lparr> average_score = 1 / 8, positive = 10, negative = 4, neutral = 6 \<rparr>),
      (''2020-03'', \<lparr> average_score = - 1 / 4, positive = 3, negative = 9, neutral = 8 \<rparr>),
      (''2020-02'', \<lparr> average_score = 0, positive = 5, negative = 5, neutral = 7 \<rparr>),
      (''2019-12'', \<lparr> average_score = 1 / 2, positive = 12, negative = 1, neutral = 2 \<rparr>)]"

definition exampleSentiment :: SentimentJson where
  "exampleSentiment = \<lparr> monthly_sentiment = Some examplePeriods \<rparr>"

text \<open>
  A stand-in for the parser: the text \<^verbatim>\<open>rows\<close> stands for the file of the log, and
  any other text is answered with no row and an error.
\<close>

definition exampleParse :: "string \<Rightarrow> PapaResult" where
  "exampleParse csv =
     (if csv = ''rows'' then \<lparr> data = exampleTweets, errors = [] \<rparr>
      else \<lparr> data = [], errors = [''Unable to auto-detect delimiting character''] \<rparr>)"

definition exampleEnv :: LoadEnv where
  "exampleEnv =
     \<lparr> analysisResponse = Resolved \<lparr> ok = True, body = Some \<lparr> analysisData_field = Some exampleReport \<rparr> \<rparr>,
       sentimentResponse = Resolved \<lparr> ok = True, body = Some exampleSentiment \<rparr>,
       tweetsResponse = Resolved \<lparr> ok = True, body = Some ''rows'' \<rparr>,
       papaParse = exampleParse \<rparr>"

definition loadedState :: Dashboard where
  "loadedState = loadData monthIndex exampleEnv initialState"

section \<open>Facts about the string primitives and the example\<close>

lemma js_includes_sublist: "js_includes s trm \<longleftrightarrow> sublist trm s"
  by (induction s) (simp_all add: sublist_Cons_right)

lemma js_split_nonempty: "js_split sep s \<noteq> []"
  by (induction s) (auto split: list.splits)

text \<open>Splitting loses nothing: the pieces, joined by the separator, are the string.\<close>

lemma js_join_split: "js_join [sep] (js_split sep s) = s"
proof (induction s)
  case Nil
  show ?case by simp
next
  case (Cons c cs)
  obtain w ws where ws: "js_split sep cs = w # ws"
    using js_split_nonempty [of sep cs] by (cases "js_split sep cs") auto
  show ?case
  proof (cases "c = sep")
    case True
    with Cons ws show ?thesis by simp
  next
    case False
    with Cons ws show ?thesis by (cases ws) auto
  qed
qed

lemma js_split_no_sep: "w \<in> set (js_split sep s) \<Longrightarrow> sep \<notin> set w"
  by (induction s arbitrary: w) (auto split: if_splits list.splits)

lemma searchTerms_empty: "searchTerms [] = [[]]"
  by (simp add: searchTerms_def js_toLowerCase_def)

lemma itemMatches_empty_term: "itemMatches [[]] x"
  by (simp add: itemMatches_def js_includes_sublist)

text \<open>
  Joining loses nothing either: pieces without the separator, joined and split again, are
  the same pieces. So the search terms of a query are the only way to cut its lower-cased
  form at single spaces.
\<close>

lemma js_split_no_sep_piece: "sep \<notin> set x \<Longrightarrow> js_split sep x = [x]"
  by (induction x) auto

lemma js_split_append_sep: "sep \<notin> set x \<Longrightarrow> js_split sep (x @ sep # r) = x # js_split sep r"
  by (induction x) auto

lemma js_split_join:
  "ws \<noteq> [] \<Longrightarrow> \<forall>w \<in> set ws. sep \<notin> set w \<Longrightarrow> js_split sep (js_join [sep] ws) = ws"
  by (induction "[sep]" ws rule: js_join.induct)
    (simp_all add: js_split_no_sep_piece js_split_append_sep)

text \<open>Lower-casing maps the letters A to Z and leaves every other character alone.\<close>

lemma upper_codes:
  "list_all (\<lambda>n. (char_of (n::nat) :: char) \<in> set ''ABCDEFGHIJKLMNOPQRSTUVWXYZ'') [65..<91]"
  by code_simp

lemma js_toLowerChar_other:
  assumes "c \<notin> set ''ABCDEFGHIJKLMNOPQRSTUVWXYZ''"
  shows "js_toLowerChar c = c"
proof -
  have "\<not> (65 \<le> (of_char c :: nat) \<and> (of_char c :: nat) \<le> 90)"
  proof
    assume "65 \<le> (of_char c :: nat) \<and> (of_char c :: nat) \<le> 90"
    then have "(of_char c :: nat) \<in> {65..<91}"
      by (simp only: atLeastLessThan_iff) auto
    with upper_codes have "(char_of (of_char c :: nat) :: char) \<in> set ''ABCDEFGHIJKLMNOPQRSTUVWXYZ''"
      unfolding list_all_iff set_upt by blast
    with assms show False by simp
  qed
  then show ?thesis by (auto simp: js_toLowerChar_def Let_def)
qed

lemma js_toLowerCase_upper:
  "js_toLowerCase ''ABCDEFGHIJKLMNOPQRSTUVWXYZ'' = ''abcdefghijklmnopqrstuvwxyz''"
  by code_simp

lemma searchTerms_pieces:
  "searchTerms q \<noteq> [] \<and> (\<forall>tok \<in> set (searchTerms q). CHR '' '' \<notin> set tok)
   \<and> js_join '' '' (searchTerms q) = js_toLowerCase q"
  by (simp add: searchTerms_def js_split_nonempty js_join_split js_split_no_sep)

lemma searchTerms_unique:
  assumes "toks \<noteq> []" and "\<forall>tok \<in> set toks. CHR '' '' \<notin> set tok"
    and "js_join '' '' toks = js_toLowerCase q"
  shows "searchTerms q = toks"
  using js_split_join [OF assms(1,2)] assms(3) by (simp add: searchTerms_def)

lemma double_space_terms: "searchTerms ''Refund  now'' = [''refund'', [], ''now'']"
  by code_simp

text \<open>The state the example datasets load into.\<close>

lemma loadedState_fields:
  "analysisData loadedState = Some exampleReport \<and> \<not> loading loadedState
   \<and> tweets loadedState = exampleTweets \<and> sentimentData loadedState = Some exampleSentiment
   \<and> messages loadedState = [] \<and> input loadedState = [] \<and> \<not> chatLoading loadedState
   \<and> inFlight loadedState = []"
  by (simp add: loadedState_def loadData_def loadAttempt_def exampleEnv_def initialState_def
      exampleSentiment_def exampleParse_def)

section \<open>The relevance selector\<close>

text \<open>
  Claim C7, as stated, fails where the query's tokens are its white-space separated words.
  The query \<^verbatim>\<open>zebra\<close> followed by a space has the one word \<^verbatim>\<open>zebra\<close>, which no row of
  the example log contains, and the selector returns every row: the trailing space leaves
  an empty search term, which every text contains. The query \<^verbatim>\<open>zebra\<close>, tab,
  \<^verbatim>\<open>refund\<close> has two words, the second of which the first row contains, and the
  selector returns no row: a tab does not separate search terms.
\<close>

theorem whitespace_tokens_counterexample:
  "whitespaceTokens ''zebra '' = [''zebra'']
   \<and> filter (whitespaceMatches ''zebra '') exampleTweets = []
   \<and> findRelevantTweets exampleTweets ''zebra '' 5 = exampleTweets
   \<and> whitespaceTokens (''zebra'' @ [CHR 0x09] @ ''refund'') = [''zebra'', ''refund'']
   \<and> filter (whitespaceMatches (''zebra'' @ [CHR 0x09] @ ''refund'')) exampleTweets
       = [hd exampleTweets]
   \<and> findRelevantTweets exampleTweets (''zebra'' @ [CHR 0x09] @ ''refund'') 5 = []"
  by code_simp

text \<open>
  Claim C7, amended. The tokens of a query are the pieces of its lower-cased form between
  single space characters, empty pieces included: they are the one non-empty list of
  space-free strings that gives the lower-cased query when joined by spaces. For every
  query and every interaction log the selector returns at most five rows: the first five,
  in the order of the log, of the rows whose lower-cased text contains at least one of
  these tokens as a contiguous substring (any one token is enough; nothing is ranked).
  An empty token, which a leading, trailing or doubled space leaves, is contained in every
  text, and the selector then returns the first five rows of the log. Lower-casing maps
  the letters A to Z to a to z and changes no other character.
\<close>

theorem findRelevantTweets_space_pieces:
  "searchTerms q \<noteq> [] \<and> (\<forall>tok \<in> set (searchTerms q). CHR '' '' \<notin> set tok)
   \<and> js_join '' '' (searchTerms q) = js_toLowerCase q
   \<and> (toks \<noteq> [] \<and> (\<forall>tok \<in> set toks. CHR '' '' \<notin> set tok)
        \<and> js_join '' '' toks = js_toLowerCase q
       \<longrightarrow> findRelevantTweets tws q 5 =
             take 5 (filter (\<lambda>t. \<exists>tok \<in> set toks.
                                 sublist tok (js_toLowerCase (tweet_text t))) tws)
           \<and> ([] \<in> set toks \<longrightarrow> findRelevantTweets tws q 5 = take 5 tws))
   \<and> length (findRelevantTweets tws q 5) \<le> 5
   \<and> subseq (findRelevantTweets tws q 5) tws
   \<and> js_toLowerCase s = map js_toLowerChar s
   \<and> map js_toLowerChar ''ABCDEFGHIJKLMNOPQRSTUVWXYZ'' = ''abcdefghijklmnopqrstuvwxyz''
   \<and> (\<forall>c. c \<notin> set ''ABCDEFGHIJKLMNOPQRSTUVWXYZ'' \<longrightarrow> js_toLowerChar c = c)"
proof -
  let ?P = "\<lambda>ts t. \<exists>tok \<in> set ts. sublist tok (js_toLowerCase (tweet_text t))"
  have eq: "findRelevantTweets tws q 5 = take 5 (filter (?P (searchTerms q)) tws)"
    by (simp add: findRelevantTweets_def list_ex_iff js_includes_sublist)
  have "subseq (take 5 (filter (?P (searchTerms q)) tws)) (filter (?P (searchTerms q)) tws)"
    by (rule prefix_imp_subseq) (rule take_is_prefix)
  then have "subseq (take 5 (filter (?P (searchTerms q)) tws)) tws"
    using subseq_filter_left subseq_order.trans by blast
  with eq have order: "subseq (findRelevantTweets tws q 5) tws"
    and bound: "length (findRelevantTweets tws q 5) \<le> 5"
    by simp_all
  have pieces: "findRelevantTweets tws q 5 = take 5 (filter (?P toks) tws)
      \<and> ([] \<in> set toks \<longrightarrow> findRelevantTweets tws q 5 = take 5 tws)"
    if "toks \<noteq> []" "\<forall>tok \<in> set toks. CHR '' '' \<notin> set tok"
      "js_join '' '' toks = js_toLowerCase q"
  proof -
    from that have same: "searchTerms q = toks" by (rule searchTerms_unique)
    have "filter (?P toks) tws = tws" if "[] \<in> set toks"
    proof -
      from that have "?P toks t" for t :: Tweet by (intro bexI [of _ "[]"]) simp_all
      then show ?thesis by simp
    qed
    with eq same show ?thesis by simp
  qed
  have fold: "js_toLowerCase s = map js_toLowerChar s"
    by (simp add: js_toLowerCase_def)
  have upper: "map js_toLowerChar ''ABCDEFGHIJKLMNOPQRSTUVWXYZ'' = ''abcdefghijklmnopqrstuvwxyz''"
    using js_toLowerCase_upper by (simp only: js_toLowerCase_def)
  show ?thesis
    using searchTerms_pieces [of q] pieces order bound fold upper js_toLowerChar_other
    by blast
qed

theorem findRelevantTweets_space_pieces_witness:
  "findRelevantTweets exampleTweets ''Refund  now'' 5
     = take 5 (filter (\<lambda>t. \<exists>tok \<in> set [''refund'', [], ''now''].
                          sublist tok (js_toLowerCase (tweet_text t))) exampleTweets)
   \<and> findRelevantTweets exampleTweets ''Refund  now'' 5 = take 5 exampleTweets"
proof -
  have h: "[''refund'', [], ''now''] \<noteq> []
      \<and> (\<forall>tok \<in> set [''refund'', [], ''now'']. CHR '' '' \<notin> set tok)
      \<and> js_join '' '' [''refund'', [], ''now''] = js_toLowerCase ''Refund  now''"
    using searchTerms_pieces [of "''Refund  now''"] unfolding double_space_terms by blast
  have e: "[] \<in> set [''refund'', [], ''now'']" by simp
  from findRelevantTweets_space_pieces [where q = "''Refund  now''"
      and toks = "[''refund'', [], ''now'']" and tws = exampleTweets] h e
  show ?thesis by blast
qed

text \<open>
  Claim C2, as stated, fails: the empty query does not give an empty set of search terms,
  and on the example data it selects both rows of the log, the issue and the
  recommendation.
\<close>

theorem empty_query_counterexample:
  "searchTerms [] \<noteq> []
   \<and> length (findRelevantTweets exampleTweets [] 5) = 2
   \<and> length (findRelevantIssues exampleReport []) = 1
   \<and> length (findRelevantRecommendations exampleReport []) = 1"
  by (simp add: searchTerms_empty findRelevantTweets_def findRelevantIssues_def
      findRelevantRecommendations_def itemMatches_empty_term js_includes_sublist
      exampleTweets_def exampleReport_def)

text \<open>
  Claim C2, amended. The empty query has exactly one search term, the empty string, which
  every text contains: the selector returns the first five rows of the log and all issues
  and recommendations. The send action rejects an empty input, so the empty query does
  not reach the selector from the input box.
\<close>

theorem empty_query_matches_everything:
  "searchTerms [] = [[]]
   \<and> findRelevantTweets tws [] 5 = take 5 tws
   \<and> findRelevantIssues report [] = keyIssues report
   \<and> findRelevantRecommendations report [] = recommendations report
   \<and> handleSendMessage getTime (s\<lparr> input := [] \<rparr>) = s\<lparr> input := [] \<rparr>"
  by (simp add: searchTerms_empty findRelevantTweets_def findRelevantIssues_def
      findRelevantRecommendations_def itemMatches_empty_term js_includes_sublist
      handleSendMessage_def js_trim_def)

section \<open>Determinism of the composition, and the empty sentiment map\<close>

text \<open>
  Claim C9. Composition is deterministic: the template has no input but the query, the
  selection, the number of rows and the report's timestamp, so composing from equal
  inputs gives the same result, character for character. The prompt that
  \<^verbatim>\<open>processDataForChat\<close> builds is this composition, applied to its own selection; and
  the prompt a send puts in flight is the same in any two states of the component that
  hold the same datasets and the same input, whatever their transcripts.
\<close>

theorem context_is_deterministic:
  assumes "q1 = q2" and "sel1 = sel2" and "n1 = n2" and "stamp1 = stamp2"
  shows "composeContext q1 n1 stamp1 sel1 = composeContext q2 n2 stamp2 sel2
    \<and> (selectEvidence getTime q1 report sd tws = Inr sel1 \<and> n1 = length tws
          \<and> stamp1 = timestamp report
         \<longrightarrow> buildContext getTime q2 report sd tws = composeContext q1 n1 stamp1 sel1)
    \<and> (analysisData s1 = analysisData s2 \<and> sentimentData s1 = sentimentData s2
          \<and> tweets s1 = tweets s2 \<and> input s1 = q1 \<and> input s2 = q2
         \<longrightarrow> drop (length (inFlight s1)) (inFlight (handleSendMessage getTime s1))
             = drop (length (inFlight s2)) (inFlight (handleSendMessage getTime s2)))"
proof -
  have "drop (length (inFlight s1)) (inFlight (handleSendMessage getTime s1))
      = drop (length (inFlight s2)) (inFlight (handleSendMessage getTime s2))"
    if "analysisData s1 = analysisData s2" "sentimentData s1 = sentimentData s2"
      "tweets s1 = tweets s2" "input s1 = q1" "input s2 = q2"
    using that assms(1)
    by (simp add: handleSendMessage_def failedReply_def Let_def split: option.splits sum.splits)
  with assms show ?thesis by (auto simp: buildContext_def)
qed

theorem context_is_deterministic_witness:
  "composeContext ''refund'' 2 (timestamp exampleReport)
     \<lparr> relevantTweets = exampleTweets,
       sentimentTrends = \<lparr> earliest = js_at examplePeriods 3, latest = js_at examplePeriods 1,
                            trend = examplePeriods \<rparr>,
       relevantRecommendations = recommendations exampleReport,
       relevantIssues = keyIssues exampleReport \<rparr>
   = composeContext ''refund'' (length exampleTweets) ''2024-11-02T10:15:00Z''
     \<lparr> relevantTweets = exampleTweets,
       sentimentTrends = \<lparr> earliest = js_at examplePeriods 3, latest = js_at examplePeriods 1,
                            trend = examplePeriods \<rparr>,
       relevantRecommendations = recommendations exampleReport,
       relevantIssues = keyIssues exampleReport \<rparr>
   \<and> inFlight (handleSendMessage monthIndex (loadedState\<lparr> input := ''refund'' \<rparr>))
     = inFlight (handleSendMessage monthIndex
         (loadedState\<lparr> input := ''refund'',
            messages := [\<lparr> role = User, content = ''hello'' \<rparr>,
                         \<lparr> role = Assistant, content = ''Hello.'' \<rparr>] \<rparr>))"
proof -
  have n: "2 = length exampleTweets" by (simp add: exampleTweets_def)
  have stamp: "timestamp exampleReport = ''2024-11-02T10:15:00Z''"
    by (simp add: exampleReport_def)
  let ?s1 = "loadedState\<lparr> input := ''refund'' \<rparr>"
  let ?s2 = "loadedState\<lparr> input := ''refund'',
            messages := [\<lparr> role = User, content = ''hello'' \<rparr>,
                         \<lparr> role = Assistant, content = ''Hello.'' \<rparr>] \<rparr>"
  have same: "analysisData ?s1 = analysisData ?s2 \<and> sentimentData ?s1 = sentimentData ?s2
      \<and> tweets ?s1 = tweets ?s2 \<and> input ?s1 = ''refund'' \<and> input ?s2 = ''refund''"
    by simp
  have none: "inFlight ?s1 = []" "inFlight ?s2 = []"
    by (simp_all add: loadedState_fields)
  from context_is_deterministic [OF refl refl n stamp, where ?s1.0 = ?s1 and ?s2.0 = ?s2] same none
  show ?thesis by simp
qed

lemma analyze_empty:
  "monthly_sentiment doc = Some [] \<Longrightarrow>
   analyzeSentimentTrends getTime (Some doc)
     = Inr \<lparr> earliest = None, latest = None, trend = [] \<rparr>"
  by (simp add: analyzeSentimentTrends_def js_at_def js_slice_last_def)

lemma buildContext_empty:
  "monthly_sentiment doc = Some [] \<Longrightarrow>
   buildContext getTime q report (Some doc) tws = Inl TypeError"
  by (simp add: buildContext_def selectEvidence_def composeContext_def analyze_empty)

text \<open>
  Claim C10. When the period map of the loaded sentiment document is empty, building the
  prompt raises a type error for every query (the earliest entry is undefined and its key
  is read), so \<^verbatim>\<open>processDataForChat\<close> fails before any request; a send in the dashboard
  then puts no request in flight and the transcript gets the user's message followed by
  the fallback.
\<close>

theorem empty_sentiment_raises_type_error:
  assumes "monthly_sentiment doc = Some []"
  shows "buildContext getTime q report (Some doc) tws = Inl TypeError
    \<and> processDataForChat getTime backend q report (Some doc) tws = Inl TypeError
    \<and> (render s = DashboardView \<and> sentimentData s = Some doc \<and> js_trim (input s) \<noteq> []
         \<longrightarrow> inFlight (step getTime s KeyPressEnter) = inFlight s
           \<and> messages (step getTime s KeyPressEnter)
               = messages s @ [\<lparr> role = User, content = input s \<rparr>,
                               \<lparr> role = Assistant, content = fallbackMessage \<rparr>])"
proof -
  have ctx: "\<And>q report tws. buildContext getTime q report (Some doc) tws = Inl TypeError"
    using assms by (rule buildContext_empty)
  have "processDataForChat getTime backend q report (Some doc) tws = Inl TypeError"
    by (simp add: processDataForChat_def ctx)
  moreover have "inFlight (step getTime s KeyPressEnter) = inFlight s
      \<and> messages (step getTime s KeyPressEnter)
          = messages s @ [\<lparr> role = User, content = input s \<rparr>,
                          \<lparr> role = Assistant, content = fallbackMessage \<rparr>]"
    if "render s = DashboardView" "sentimentData s = Some doc" "js_trim (input s) \<noteq> []"
    using that
    by (cases "analysisData s") (simp_all add: handleSendMessage_def failedReply_def ctx)
  ultimately show ?thesis using ctx by blast
qed

theorem empty_sentiment_raises_type_error_witness:
  "buildContext monthIndex ''refund'' exampleReport (Some \<lparr> monthly_sentiment = Some [] \<rparr>)
     exampleTweets = Inl TypeError
   \<and> inFlight (step monthIndex
        (loadedState\<lparr> sentimentData := Some \<lparr> monthly_sentiment = Some [] \<rparr>,
                      input := ''refund'' \<rparr>)
        KeyPressEnter) = []"
proof -
  let ?doc = "\<lparr> monthly_sentiment = Some [] \<rparr>"
  let ?s = "loadedState\<lparr> sentimentData := Some ?doc, input := ''refund'' \<rparr>"
  have h: "monthly_sentiment ?doc = Some []" by simp
  have v: "render ?s = DashboardView" by (simp add: render_def loadedState_fields)
  have t: "js_trim (input ?s) \<noteq> []" by (simp add: js_trim_def js_isSpace_def)
  have e: "inFlight ?s = []" by (simp add: loadedState_fields)
  show ?thesis
    using empty_sentiment_raises_type_error [OF h, where getTime = monthIndex
        and q = "''refund''" and report = exampleReport and tws = exampleTweets and s = ?s]
      v t e
    by simp
qed

section \<open>Failure of the generation request\<close>

lemma requestReply_failure:
  "outcome = Rejected \<or> (\<exists>r. outcome = Resolved r \<and> \<not> ok r) \<Longrightarrow>
   \<exists>err. requestReply outcome = Inl err"
  by (auto simp: requestReply_def)

text \<open>Whatever the request comes to, the call resolves: nothing is raised to the caller.\<close>

lemma awaitReply_never_raises: "\<exists>reply. awaitReply outcome = Inr reply"
  by (simp add: awaitReply_def split: sum.splits)

text \<open>
  Claim C5. When the request to the generation backend is rejected (transport failure) or
  answered with a non-success status, the call resolves to the fixed fallback text and
  raises nothing; when that request settles, the message appended to the transcript is
  the assistant's fallback message.
\<close>

theorem generation_failure_gives_fallback:
  assumes failure: "outcome = Rejected \<or> (\<exists>r. outcome = Resolved r \<and> \<not> ok r)"
    and pending: "i < length (inFlight s)"
  shows "awaitReply outcome = Inr fallbackMessage
    \<and> messages (step getTime s (Settle i outcome))
        = messages s @ [\<lparr> role = Assistant, content = fallbackMessage \<rparr>]
    \<and> (\<forall>context. buildContext getTime q report sd tws = Inr context
            \<and> backend context = outcome
          \<longrightarrow> processDataForChat getTime backend q report sd tws = Inr fallbackMessage)"
proof -
  from failure obtain err where "requestReply outcome = Inl err"
    using requestReply_failure by blast
  then have reply: "awaitReply outcome = Inr fallbackMessage"
    by (simp add: awaitReply_def)
  have "messages (step getTime s (Settle i outcome))
        = messages s @ [\<lparr> role = Assistant, content = fallbackMessage \<rparr>]"
    using pending reply by (simp add: settle_def)
  moreover have "\<forall>context. buildContext getTime q report sd tws = Inr context
            \<and> backend context = outcome
          \<longrightarrow> processDataForChat getTime backend q report sd tws = Inr fallbackMessage"
    using reply by (auto simp: processDataForChat_def)
  ultimately show ?thesis using reply by blast
qed

lemma one_request_in_flight:
  "length (inFlight (run monthIndex loadedState [Change ''refund'', KeyPressEnter])) = 1
   \<and> messages (run monthIndex loadedState [Change ''refund'', KeyPressEnter])
       = [\<lparr> role = User, content = ''refund'' \<rparr>]"
  by code_simp

theorem generation_failure_gives_fallback_witness:
  "messages (step monthIndex (run monthIndex loadedState [Change ''refund'', KeyPressEnter])
      (Settle 0 (Resolved \<lparr> ok = False, body = None \<rparr>)))
     = [\<lparr> role = User, content = ''refund'' \<rparr>,
        \<lparr> role = Assistant, content = fallbackMessage \<rparr>]"
proof -
  let ?s = "run monthIndex loadedState [Change ''refund'', KeyPressEnter]"
  let ?o = "Resolved \<lparr> ok = False, body = None \<rparr> :: GenerateJson fetched"
  have h1: "?o = Rejected \<or> (\<exists>r. ?o = Resolved r \<and> \<not> ok r)" by simp
  have h2: "0 < length (inFlight ?s)" using one_request_in_flight by simp
  show ?thesis
    using generation_failure_gives_fallback [OF h1 h2, of monthIndex] one_request_in_flight
    by simp
qed

section \<open>The sentiment summary\<close>

lemma js_at_first: "js_at xs 0 = (if xs = [] then None else Some (hd xs))"
  by (cases xs) (simp_all add: js_at_def)

lemma js_at_last: "js_at xs (int (length xs) - 1) = (if xs = [] then None else Some (last xs))"
  by (cases xs rule: rev_cases) (simp_all add: js_at_def nth_append)

lemma analyze_sorted:
  "monthly_sentiment doc = Some ms \<Longrightarrow>
   analyzeSentimentTrends getTime (Some doc)
     = (let chron = sort_key (\<lambda>e. getTime (fst e)) ms
        in Inr \<lparr> earliest = (if chron = [] then None else Some (hd chron)),
                 latest = (if chron = [] then None else Some (last chron)),
                 trend = drop (length chron - 3) chron \<rparr>)"
  by (simp add: analyzeSentimentTrends_def js_at_first js_at_last js_slice_last_def Let_def
      del: length_sort)

text \<open>
  Claim C6. The sentiment summary of a selection does not depend on the query: for any two
  queries and the same datasets it is the same. When the period map is there, it is read
  off the periods in chronological order (a rearrangement of the map's entries, sorted by
  the time of their keys): the first entry, the last entry, and the last three entries
  (all of them when there are fewer).
\<close>

theorem sentiment_summary_ignores_query:
  "map_sum id sentimentTrends (selectEvidence getTime qa report sd tws)
     = map_sum id sentimentTrends (selectEvidence getTime qb report sd tws)
   \<and> (sd = Some doc \<and> monthly_sentiment doc = Some ms \<longrightarrow>
       (\<exists>chron. mset chron = mset ms \<and> sorted (map (\<lambda>e. getTime (fst e)) chron)
          \<and> (\<forall>q. \<exists>sel. selectEvidence getTime q report sd tws = Inr sel
                \<and> sentimentTrends sel
                    = \<lparr> earliest = (if chron = [] then None else Some (hd chron)),
                        latest = (if chron = [] then None else Some (last chron)),
                        trend = drop (length chron - 3) chron \<rparr>)))"
proof -
  have indep: "map_sum id sentimentTrends (selectEvidence getTime qa report sd tws)
     = map_sum id sentimentTrends (selectEvidence getTime qb report sd tws)"
    by (simp add: selectEvidence_def split: sum.splits)
  have "\<exists>chron. mset chron = mset ms \<and> sorted (map (\<lambda>e. getTime (fst e)) chron)
          \<and> (\<forall>q. \<exists>sel. selectEvidence getTime q report sd tws = Inr sel
                \<and> sentimentTrends sel
                    = \<lparr> earliest = (if chron = [] then None else Some (hd chron)),
                        latest = (if chron = [] then None else Some (last chron)),
                        trend = drop (length chron - 3) chron \<rparr>)"
    if sd: "sd = Some doc" and ms: "monthly_sentiment doc = Some ms"
  proof (intro exI conjI allI)
    let ?chron = "sort_key (\<lambda>e. getTime (fst e)) ms"
    show "mset ?chron = mset ms" by simp
    show "sorted (map (\<lambda>e. getTime (fst e)) ?chron)" by (rule sorted_sort_key)
    fix q
    show "selectEvidence getTime q report sd tws
        = Inr \<lparr> relevantTweets = findRelevantTweets tws q 5,
                sentimentTrends = \<lparr> earliest = (if ?chron = [] then None else Some (hd ?chron)),
                        latest = (if ?chron = [] then None else Some (last ?chron)),
                        trend = drop (length ?chron - 3) ?chron \<rparr>,
                relevantRecommendations = findRelevantRecommendations report q,
                relevantIssues = findRelevantIssues report q \<rparr>"
      using analyze_sorted [OF ms, of getTime] by (simp add: selectEvidence_def sd Let_def)
    show "sentimentTrends \<lparr> relevantTweets = findRelevantTweets tws q 5,
                sentimentTrends = \<lparr> earliest = (if ?chron = [] then None else Some (hd ?chron)),
                        latest = (if ?chron = [] then None else Some (last ?chron)),
                        trend = drop (length ?chron - 3) ?chron \<rparr>,
                relevantRecommendations = findRelevantRecommendations report q,
                relevantIssues = findRelevantIssues report q \<rparr>
         = \<lparr> earliest = (if ?chron = [] then None else Some (hd ?chron)),
                        latest = (if ?chron = [] then None else Some (last ?chron)),
                        trend = drop (length ?chron - 3) ?chron \<rparr>"
      by simp
  qed
  with indep show ?thesis by blast
qed

theorem sentiment_summary_ignores_query_witness:
  "map_sum id sentimentTrends
       (selectEvidence monthIndex ''refund'' exampleReport (Some exampleSentiment) exampleTweets)
     = map_sum id sentimentTrends
         (selectEvidence monthIndex ''late delivery'' exampleReport (Some exampleSentiment)
            exampleTweets)
   \<and> (\<exists>chron. mset chron = mset examplePeriods
          \<and> sorted (map (\<lambda>e. monthIndex (fst e)) chron)
          \<and> (\<forall>q. \<exists>sel. selectEvidence monthIndex q exampleReport (Some exampleSentiment)
                          exampleTweets = Inr sel
                \<and> sentimentTrends sel
                    = \<lparr> earliest = (if chron = [] then None else Some (hd chron)),
                        latest = (if chron = [] then None else Some (last chron)),
                        trend = drop (length chron - 3) chron \<rparr>))"
proof -
  have h: "Some exampleSentiment = Some exampleSentiment
      \<and> monthly_sentiment exampleSentiment = Some examplePeriods"
    by (simp add: exampleSentiment_def)
  from h sentiment_summary_ignores_query [where getTime = monthIndex and qa = "''refund''"
      and qb = "''late delivery''" and report = exampleReport and sd = "Some exampleSentiment"
      and tws = exampleTweets and doc = exampleSentiment and ms = examplePeriods]
  show ?thesis by blast
qed

text \<open>On the example data: the earliest period, the latest, and the last three.\<close>

lemma example_summary:
  "analyzeSentimentTrends monthIndex (Some exampleSentiment)
     = Inr \<lparr> earliest = Some (examplePeriods ! 3), latest = Some (examplePeriods ! 1),
             trend = [examplePeriods ! 0, examplePeriods ! 2, examplePeriods ! 1] \<rparr>"
  by code_simp

section \<open>The composed prompt\<close>

lemma sort_key_Nil_iff: "sort_key f xs = [] \<longleftrightarrow> xs = []"
  by (metis length_0_conv length_sort)

text \<open>With at least one period, the prompt is built: the template, filled in.\<close>

lemma buildContext_nonempty:
  assumes "monthly_sentiment doc = Some ms" and "ms \<noteq> []"
  shows "buildContext getTime q report (Some doc) tws
     = (let chron = sort_key (\<lambda>e. getTime (fst e)) ms
        in Inr (contextText q (length tws) (findRelevantTweets tws q 5)
                  (fst (hd chron)) (fst (last chron)) (drop (length chron - 3) chron)
                  (timestamp report) (findRelevantIssues report q)
                  (findRelevantRecommendations report q)))"
  using assms
  by (simp add: buildContext_def selectEvidence_def composeContext_def analyze_sorted
      sort_key_Nil_iff Let_def del: length_sort)

lemma lower_refund: "js_toLowerCase ''Please refund my order'' = ''please refund my order''"
  by code_simp

lemma terms_refund: "searchTerms ''refund'' = [''refund'']"
  by code_simp

lemma includes_refund: "js_includes ''please refund my order'' ''refund''"
  by code_simp

lemma showDigits_1: "showDigits (Suc 0) = ''1''"
  by code_simp

lemma tweetLine_Customer:
  \<open>inbound u = ''True'' \<Longrightarrow>
   tweetLine u = ''  * ['' @ created_at u @ ''] Customer: "'' @ tweet_text u @ ''"''\<close>
  by (simp add: tweetLine_def)

lemma tweetLine_Amazon:
  \<open>inbound u \<noteq> ''True'' \<Longrightarrow>
   tweetLine u = ''  * ['' @ created_at u @ ''] Amazon: "'' @ tweet_text u @ ''"''\<close>
  by (simp add: tweetLine_def)

text \<open>
  Claim C4. For the query \<^verbatim>\<open>refund\<close> and a log of exactly one row, whose text is
  \<^verbatim>\<open>Please refund my order\<close>, whose direction flag is set (the field holds \<^verbatim>\<open>True\<close>) and
  whose timestamp is \<open>T\<close>, the selector returns that row and the example lines of the
  composed prompt are the single line \<^verbatim>\<open>[T] Customer: "Please refund my order"\<close> behind
  the bullet. In general a row whose flag is set is rendered as Customer, any other row as
  Amazon. (The prompt is composed when the sentiment map has a period; see C10.)
\<close>

theorem refund_interaction_line:
  assumes t: \<open>created_at t = T\<close> \<open>inbound t = ''True''\<close>
      \<open>tweet_text t = ''Please refund my order''\<close>
    and periods: \<open>monthly_sentiment doc = Some ms\<close> \<open>ms \<noteq> []\<close>
  shows \<open>findRelevantTweets [t] ''refund'' 5 = [t]
    \<and> (\<exists>rest. buildContext getTime ''refund'' report (Some doc) [t]
          = Inr (ctx_head @ ''1'' @ ctx_fields
                 @ ''  * ['' @ T @ ''] Customer: "Please refund my order"''
                 @ ctx_sentiment @ rest))
    \<and> (\<forall>u. (inbound u = ''True'' \<longrightarrow>
               tweetLine u = ''  * ['' @ created_at u @ ''] Customer: "'' @ tweet_text u @ ''"'')
           \<and> (inbound u \<noteq> ''True'' \<longrightarrow>
               tweetLine u = ''  * ['' @ created_at u @ ''] Amazon: "'' @ tweet_text u @ ''"''))\<close>
proof -
  have found: "findRelevantTweets [t] ''refund'' 5 = [t]"
    using t(3) by (simp add: findRelevantTweets_def terms_refund lower_refund includes_refund)
  have line: \<open>tweetLine t = ''  * ['' @ T @ ''] Customer: "Please refund my order"''\<close>
    using t by (simp add: tweetLine_Customer)
  let ?chron = "sort_key (\<lambda>e. getTime (fst e)) ms"
  let ?rest = "fst (hd ?chron) @ ctx_to @ fst (last ?chron)
       @ ctx_trends @ js_join ''\<newline>'' (map trendLine (drop (length ?chron - 3) ?chron))
       @ ctx_analysis @ timestamp report
       @ ctx_issues @ js_join ''\<newline>'' (map itemLine (findRelevantIssues report ''refund''))
       @ ctx_recommendations
       @ js_join ''\<newline>'' (map itemLine (findRelevantRecommendations report ''refund''))
       @ ctx_instructions @ ''refund'' @ ctx_closing"
  have \<open>buildContext getTime ''refund'' report (Some doc) [t]
          = Inr (ctx_head @ ''1'' @ ctx_fields
                 @ ''  * ['' @ T @ ''] Customer: "Please refund my order"''
                 @ ctx_sentiment @ ?rest)\<close>
    unfolding buildContext_nonempty [OF periods] Let_def contextText_def found
    by (simp add: showDigits_1 line)
  then have \<open>\<exists>rest. buildContext getTime ''refund'' report (Some doc) [t]
          = Inr (ctx_head @ ''1'' @ ctx_fields
                 @ ''  * ['' @ T @ ''] Customer: "Please refund my order"''
                 @ ctx_sentiment @ rest)\<close>
    by (rule exI)
  with found show ?thesis
    using tweetLine_Customer tweetLine_Amazon by blast
qed

theorem refund_interaction_line_witness:
  \<open>findRelevantTweets [hd exampleTweets] ''refund'' 5 = [hd exampleTweets]
   \<and> (\<exists>rest. buildContext monthIndex ''refund'' exampleReport (Some exampleSentiment)
                [hd exampleTweets]
          = Inr (ctx_head @ ''1'' @ ctx_fields
                 @ ''  * [Wed Oct 11 06:55:44 +0000 2017] Customer: "Please refund my order"''
                 @ ctx_sentiment @ rest))\<close>
proof -
  have h1: "created_at (hd exampleTweets) = ''Wed Oct 11 06:55:44 +0000 2017''"
    by (simp add: exampleTweets_def)
  have h2: "inbound (hd exampleTweets) = ''True''"
    by (simp add: exampleTweets_def)
  have h3: "tweet_text (hd exampleTweets) = ''Please refund my order''"
    by (simp add: exampleTweets_def)
  have h4: "monthly_sentiment exampleSentiment = Some examplePeriods"
    by (simp add: exampleSentiment_def)
  have h5: "examplePeriods \<noteq> []"
    by (simp add: examplePeriods_def)
  show ?thesis
    using refund_interaction_line [OF h1 h2 h3 h4 h5, of monthIndex exampleReport]
    by simp
qed

text \<open>
  Claim C8, as stated, fails: on the example data the query \<^verbatim>\<open>zebra\<close> matches no row, no
  issue and no recommendation, and the prompt has the three headings with nothing under
  them: the heading of the example lines is followed at once by section 2, and the two
  headings of section 3 by each other and by the instructions. No sentence says that data
  is unavailable.
\<close>

theorem empty_evidence_counterexample:
  "findRelevantTweets exampleTweets ''zebra'' 5 = []
   \<and> findRelevantIssues exampleReport ''zebra'' = []
   \<and> findRelevantRecommendations exampleReport ''zebra'' = []
   \<and> buildContext monthIndex ''zebra'' exampleReport (Some exampleSentiment) exampleTweets
      = Inr (ctx_head @ ''2''
             @ ctx_fields
             @ ctx_sentiment @ ''2019-12'' @ ctx_to @ ''2020-03''
             @ ctx_trends
             @ ''  * 2020-01: Score=0.13 (10 positive, 4 negative, 6 neutral)\<newline>''
             @ ''  * 2020-02: Score=0.00 (5 positive, 5 negative, 7 neutral)\<newline>''
             @ ''  * 2020-03: Score=-0.25 (3 positive, 9 negative, 8 neutral)''
             @ ctx_analysis @ ''2024-11-02T10:15:00Z''
             @ ctx_issues
             @ ctx_recommendations
             @ ctx_instructions @ ''zebra''
             @ ctx_closing)"
  by code_simp

text \<open>
  Claim C8, amended. When the sentiment map has at least one period, the prompt is
  composed whatever the query matches, and every section is there with its headings; the
  lines under a heading are those of the matching records, so that a dataset without a
  match leaves the text under its heading empty.
\<close>

theorem empty_evidence_keeps_sections:
  assumes "monthly_sentiment doc = Some ms" and "ms \<noteq> []"
  shows "\<exists>key1 key2 trends.
      buildContext getTime q report (Some doc) tws
        = Inr (ctx_head @ showDigits (length tws)
               @ ctx_fields @ js_join ''\<newline>'' (map tweetLine (findRelevantTweets tws q 5))
               @ ctx_sentiment @ key1 @ ctx_to @ key2
               @ ctx_trends @ trends
               @ ctx_analysis @ timestamp report
               @ ctx_issues @ js_join ''\<newline>'' (map itemLine (findRelevantIssues report q))
               @ ctx_recommendations
               @ js_join ''\<newline>'' (map itemLine (findRelevantRecommendations report q))
               @ ctx_instructions @ q @ ctx_closing)
      \<and> (findRelevantTweets tws q 5 = [] \<longrightarrow>
            js_join ''\<newline>'' (map tweetLine (findRelevantTweets tws q 5)) = [])
      \<and> (findRelevantIssues report q = [] \<longrightarrow>
            js_join ''\<newline>'' (map itemLine (findRelevantIssues report q)) = [])
      \<and> (findRelevantRecommendations report q = [] \<longrightarrow>
            js_join ''\<newline>'' (map itemLine (findRelevantRecommendations report q)) = [])"
proof -
  let ?chron = "sort_key (\<lambda>e. getTime (fst e)) ms"
  have "buildContext getTime q report (Some doc) tws
        = Inr (ctx_head @ showDigits (length tws)
               @ ctx_fields @ js_join ''\<newline>'' (map tweetLine (findRelevantTweets tws q 5))
               @ ctx_sentiment @ fst (hd ?chron) @ ctx_to @ fst (last ?chron)
               @ ctx_trends
               @ js_join ''\<newline>'' (map trendLine (drop (length ?chron - 3) ?chron))
               @ ctx_analysis @ timestamp report
               @ ctx_issues @ js_join ''\<newline>'' (map itemLine (findRelevantIssues report q))
               @ ctx_recommendations
               @ js_join ''\<newline>'' (map itemLine (findRelevantRecommendations report q))
               @ ctx_instructions @ q @ ctx_closing)"
    unfolding buildContext_nonempty [OF assms] Let_def contextText_def by simp
  then show ?thesis by auto
qed

theorem empty_evidence_keeps_sections_witness:
  "\<exists>key1 key2 trends.
      buildContext monthIndex ''zebra'' exampleReport (Some exampleSentiment) exampleTweets
        = Inr (ctx_head @ showDigits (length exampleTweets)
               @ ctx_fields @ ctx_sentiment @ key1 @ ctx_to @ key2
               @ ctx_trends @ trends
               @ ctx_analysis @ timestamp exampleReport
               @ ctx_issues @ ctx_recommendations @ ctx_instructions @ ''zebra'' @ ctx_closing)"
proof -
  have h4: "monthly_sentiment exampleSentiment = Some examplePeriods"
    by (simp add: exampleSentiment_def)
  have h5: "examplePeriods \<noteq> []"
    by (simp add: examplePeriods_def)
  have none: "findRelevantTweets exampleTweets ''zebra'' 5 = []
     \<and> findRelevantIssues exampleReport ''zebra'' = []
     \<and> findRelevantRecommendations exampleReport ''zebra'' = []"
    by code_simp
  show ?thesis
    using empty_evidence_keeps_sections [OF h4 h5, of monthIndex "''zebra''" exampleReport exampleTweets]
    by (simp add: none)
qed

section \<open>Sending while a send is in flight\<close>

text \<open>The send button is guarded: while a send is in flight, a click changes nothing.\<close>

lemma click_while_sending: "chatLoading s \<Longrightarrow> step getTime s ClickSend = s"
  by simp

text \<open>The Enter key is not: a send in flight does not keep a second one from starting.\<close>

lemma enter_while_sending:
  assumes "render s = DashboardView" and "chatLoading s" and "js_trim (input s) \<noteq> []"
  shows "\<exists>rest. messages (step getTime s KeyPressEnter)
            = messages s @ \<lparr> role = User, content = input s \<rparr> # rest"
  using assms
  by (auto simp: handleSendMessage_def failedReply_def Let_def split: option.splits sum.splits)

text \<open>A send that is accepted: the user's message is appended and one request starts.\<close>

lemma handleSendMessage_accepts:
  assumes "analysisData s = Some report" and "sentimentData s = Some doc"
    and "monthly_sentiment doc = Some ms" and "ms \<noteq> []" and "js_trim (input s) \<noteq> []"
  shows "\<exists>context. handleSendMessage getTime s
      = s\<lparr> messages := messages s @ [\<lparr> role = User, content = input s \<rparr>], input := [],
           chatLoading := True, inFlight := inFlight s @ [context] \<rparr>"
  using assms
  by (simp add: handleSendMessage_def buildContext_nonempty Let_def) (rule exI, rule refl)

text \<open>
  Claim C1. A send started while another is in flight should change nothing. The send
  button keeps to that, the Enter key does not: after \<^verbatim>\<open>a\<close> is sent and while its request
  is still in flight, typing \<^verbatim>\<open>b\<close> and pressing Enter appends a second user message and
  starts a second request, so the transcript holds two user messages and two requests are
  in flight; a click on the button at the same point leaves the state as it is.
\<close>

theorem second_send_by_enter_is_accepted:
  "chatLoading (run monthIndex loadedState [Change ''a'', KeyPressEnter, Change ''b''])
   \<and> length (inFlight (run monthIndex loadedState [Change ''a'', KeyPressEnter, Change ''b''])) = 1
   \<and> messages (run monthIndex loadedState
         [Change ''a'', KeyPressEnter, Change ''b'', KeyPressEnter])
       = [\<lparr> role = User, content = ''a'' \<rparr>, \<lparr> role = User, content = ''b'' \<rparr>]
   \<and> length (inFlight (run monthIndex loadedState
         [Change ''a'', KeyPressEnter, Change ''b'', KeyPressEnter])) = 2
   \<and> run monthIndex loadedState [Change ''a'', KeyPressEnter, Change ''b'', ClickSend]
       = run monthIndex loadedState [Change ''a'', KeyPressEnter, Change ''b'']"
proof -
  note fields = loadedState_fields
  have periods: "monthly_sentiment exampleSentiment = Some examplePeriods" "examplePeriods \<noteq> []"
    by (simp_all add: exampleSentiment_def examplePeriods_def)
  have nonblank: "js_trim ''a'' \<noteq> []" "js_trim ''b'' \<noteq> []"
    by (simp_all add: js_trim_def js_isSpace_def)
  let ?sa = "loadedState\<lparr> input := ''a'' \<rparr>"
  obtain ca where first: "handleSendMessage monthIndex ?sa
      = ?sa\<lparr> messages := messages ?sa @ [\<lparr> role = User, content = input ?sa \<rparr>], input := [],
           chatLoading := True, inFlight := inFlight ?sa @ [ca] \<rparr>"
    using handleSendMessage_accepts [of ?sa exampleReport exampleSentiment examplePeriods monthIndex]
      periods nonblank fields by auto
  let ?s1 = "loadedState\<lparr> input := [], messages := [\<lparr> role = User, content = ''a'' \<rparr>],
      chatLoading := True, inFlight := [ca] \<rparr>"
  have s1: "run monthIndex loadedState [Change ''a'', KeyPressEnter] = ?s1"
    using first by (simp add: run_def render_def fields)
  let ?sb = "?s1\<lparr> input := ''b'' \<rparr>"
  have sb: "run monthIndex loadedState [Change ''a'', KeyPressEnter, Change ''b''] = ?sb"
    using s1 by (simp add: run_def render_def fields)
  obtain cb where second: "handleSendMessage monthIndex ?sb
      = ?sb\<lparr> messages := messages ?sb @ [\<lparr> role = User, content = input ?sb \<rparr>], input := [],
           chatLoading := True, inFlight := inFlight ?sb @ [cb] \<rparr>"
    using handleSendMessage_accepts [of ?sb exampleReport exampleSentiment examplePeriods monthIndex]
      periods nonblank fields by auto
  have s2: "run monthIndex loadedState [Change ''a'', KeyPressEnter, Change ''b'', KeyPressEnter]
      = step monthIndex ?sb KeyPressEnter"
    using sb by (simp add: run_def)
  have click: "run monthIndex loadedState [Change ''a'', KeyPressEnter, Change ''b'', ClickSend]
      = step monthIndex ?sb ClickSend"
    using sb by (simp add: run_def)
  have view: "render ?sb = DashboardView"
    by (simp add: render_def fields)
  show ?thesis
    unfolding s2 click sb using second view by simp
qed

section \<open>Loading\<close>

text \<open>Where nothing is rendered and no request is in flight, no event changes the state.\<close>

lemma step_nothing_view:
  "render s = NothingView \<Longrightarrow> inFlight s = [] \<Longrightarrow> step getTime s ev = s"
  by (cases ev) (simp_all add: settle_def)

lemma run_nothing_view:
  "render s = NothingView \<Longrightarrow> inFlight s = [] \<Longrightarrow> run getTime s evs = s"
  by (induction evs) (simp_all add: run_def step_nothing_view)

lemma loadAttempt_early_failure:
  assumes "analysisResponse env = Rejected \<or> sentimentResponse env = Rejected
      \<or> tweetsResponse env = Rejected
      \<or> (\<exists>r. analysisResponse env = Resolved r \<and> body r = None)
      \<or> (\<exists>r. sentimentResponse env = Resolved r \<and> body r = None)
      \<or> (\<exists>r. tweetsResponse env = Resolved r \<and> body r = None)"
  shows "\<exists>err. loadAttempt getTime env s = (Some err, s)"
  using assms
  by (cases "analysisResponse env"; cases "sentimentResponse env"; cases "tweetsResponse env")
    (auto simp: loadAttempt_def split: option.splits)

text \<open>
  Claim C3, amended. When one of the three fetches is rejected, or the body of the report
  or of the sentiment document cannot be decoded, or the text of the log cannot be read,
  the loader stores no dataset: loading ends in the state it began in, nothing is
  rendered, and no event changes that.
\<close>

theorem early_load_failure_renders_nothing:
  assumes "analysisResponse env = Rejected \<or> sentimentResponse env = Rejected
      \<or> tweetsResponse env = Rejected
      \<or> (\<exists>r. analysisResponse env = Resolved r \<and> body r = None)
      \<or> (\<exists>r. sentimentResponse env = Resolved r \<and> body r = None)
      \<or> (\<exists>r. tweetsResponse env = Resolved r \<and> body r = None)"
  shows "loadData getTime env initialState = initialState\<lparr> loading := False \<rparr>
    \<and> render (loadData getTime env initialState) = NothingView
    \<and> (\<forall>evs. run getTime (loadData getTime env initialState) evs
                = loadData getTime env initialState)"
proof -
  from assms obtain err where "loadAttempt getTime env initialState = (Some err, initialState)"
    using loadAttempt_early_failure by blast
  then have loaded: "loadData getTime env initialState = initialState\<lparr> loading := False \<rparr>"
    by (simp add: loadData_def)
  have view: "render (initialState\<lparr> loading := False \<rparr>) = NothingView"
    by (simp add: render_def initialState_def)
  have "inFlight (initialState\<lparr> loading := False \<rparr>) = []"
    by (simp add: initialState_def)
  with view have "\<forall>evs. run getTime (initialState\<lparr> loading := False \<rparr>) evs
      = initialState\<lparr> loading := False \<rparr>"
    by (simp add: run_nothing_view)
  with loaded view show ?thesis by simp
qed

theorem early_load_failure_renders_nothing_witness:
  "render (loadData monthIndex (exampleEnv\<lparr> tweetsResponse := Rejected \<rparr>) initialState)
     = NothingView
   \<and> tweets (loadData monthIndex (exampleEnv\<lparr> tweetsResponse := Rejected \<rparr>) initialState) = []
   \<and> analysisData (loadData monthIndex (exampleEnv\<lparr> tweetsResponse := Rejected \<rparr>) initialState)
       = None"
proof -
  let ?env = "exampleEnv\<lparr> tweetsResponse := Rejected \<rparr>"
  have h: "analysisResponse ?env = Rejected \<or> sentimentResponse ?env = Rejected
      \<or> tweetsResponse ?env = Rejected
      \<or> (\<exists>r. analysisResponse ?env = Resolved r \<and> body r = None)
      \<or> (\<exists>r. sentimentResponse ?env = Resolved r \<and> body r = None)
      \<or> (\<exists>r. tweetsResponse ?env = Resolved r \<and> body r = None)"
    by simp
  from early_load_failure_renders_nothing [OF h, of monthIndex]
  have eq: "loadData monthIndex ?env initialState = initialState\<lparr> loading := False \<rparr>"
    and view: "render (loadData monthIndex ?env initialState) = NothingView"
    by blast+
  have "tweets (initialState\<lparr> loading := False \<rparr>) = []"
    and "analysisData (initialState\<lparr> loading := False \<rparr>) = None"
    by (simp_all add: initialState_def)
  with view show ?thesis unfolding eq by simp
qed

text \<open>
  Claim C3, as stated, fails for failures that come later. A sentiment document without a
  period map makes the loader raise a type error after the report, the document and the
  log have been stored: the dashboard is rendered with the log and an empty chart. A log
  that comes with a non-success status and a body the parser reports errors for is stored
  as it was parsed: the dashboard is rendered with the report and the chart and no row of
  the log.
\<close>

theorem partial_dashboard_counterexample:
  "fst (loadAttempt monthIndex
          (exampleEnv\<lparr> sentimentResponse :=
              Resolved \<lparr> ok = True, body = Some \<lparr> monthly_sentiment = None \<rparr> \<rparr> \<rparr>)
          initialState) = Some TypeError
   \<and> render (loadData monthIndex
          (exampleEnv\<lparr> sentimentResponse :=
              Resolved \<lparr> ok = True, body = Some \<lparr> monthly_sentiment = None \<rparr> \<rparr> \<rparr>)
          initialState) = DashboardView
   \<and> tweets (loadData monthIndex
          (exampleEnv\<lparr> sentimentResponse :=
              Resolved \<lparr> ok = True, body = Some \<lparr> monthly_sentiment = None \<rparr> \<rparr> \<rparr>)
          initialState) = exampleTweets
   \<and> chartData (loadData monthIndex
          (exampleEnv\<lparr> sentimentResponse :=
              Resolved \<lparr> ok = True, body = Some \<lparr> monthly_sentiment = None \<rparr> \<rparr> \<rparr>)
          initialState) = []
   \<and> errors (exampleParse ''Not Found'') \<noteq> []
   \<and> render (loadData monthIndex
          (exampleEnv\<lparr> tweetsResponse := Resolved \<lparr> ok = False, body = Some ''Not Found'' \<rparr> \<rparr>)
          initialState) = DashboardView
   \<and> tweets (loadData monthIndex
          (exampleEnv\<lparr> tweetsResponse := Resolved \<lparr> ok = False, body = Some ''Not Found'' \<rparr> \<rparr>)
          initialState) = []
   \<and> length (chartData (loadData monthIndex
          (exampleEnv\<lparr> tweetsResponse := Resolved \<lparr> ok = False, body = Some ''Not Found'' \<rparr> \<rparr>)
          initialState)) = 4"
  by (simp add: loadData_def loadAttempt_def exampleEnv_def initialState_def render_def
      exampleSentiment_def exampleParse_def examplePeriods_def)

end
